theory Spec2Isabelle
  imports Main "HOL-Library.Log_Nat" "HOL-Library.AList" "HOL-Library.Multiset"
begin

section \<open>Numbers: Decimal amounts and binary64 floats\<close>

text \<open>
  The payroll engine computes with Python \<open>Decimal\<close> values and passes every percentage
  and the hourly gross through \<open>float\<close>. Both kinds of number are modelled by their exact
  rational value. \<open>Decimal\<close> addition, subtraction, multiplication and comparison are
  the exact rational operations (the default context keeps 28 significant digits, far
  more than the NUMERIC(15,2) columns can hold). A \<open>float\<close> is a rational that
  \<open>binary64\<close> leaves unchanged; every float operation of the source is the exact
  operation followed by \<open>binary64\<close>, the IEEE 754 round-to-nearest, ties-to-even. The
  model has no infinities: it covers magnitudes below \<open>2 ^ 1024\<close>.
\<close>

type_synonym decimal = rat
type_synonym pyfloat = rat

definition round_half_even :: "rat \<Rightarrow> int" where
  "round_half_even x =
     (let f = \<lfloor>x\<rfloor>; r = x - of_int f
      in if r < 1 / 2 then f
         else if 1 / 2 < r then f + 1
         else if even f then f else f + 1)"

text \<open>\<open>ilog2 x\<close> is the binary exponent of a positive rational: \<open>2 ^ ilog2 x \<le> x < 2 ^ (ilog2 x + 1)\<close>.\<close>

definition ilog2 :: "rat \<Rightarrow> int" where
  "ilog2 x = (if 1 \<le> x then bitlen \<lfloor>x\<rfloor> - 1 else - bitlen (\<lceil>1 / x\<rceil> - 1))"

text \<open>
  The nearest double: 53 significant bits for normal numbers, multiples of \<open>2 ^ -1074\<close>
  below the normal range.
\<close>

definition binary64 :: "rat \<Rightarrow> pyfloat" where
  "binary64 x =
     (if x = 0 then 0
      else let e = max (ilog2 \<bar>x\<bar> - 52) (- 1074)
           in of_int (round_half_even (x / (2 powi e))) * (2 powi e))"





text \<open>\<open>float(d)\<close> of a Decimal, and the float product and quotient.\<close>

definition float_of :: "decimal \<Rightarrow> pyfloat" where
  "float_of d = binary64 d"

definition float_mul :: "pyfloat \<Rightarrow> pyfloat \<Rightarrow> pyfloat" where
  "float_mul a b = binary64 (a * b)"

definition float_div :: "pyfloat \<Rightarrow> pyfloat \<Rightarrow> pyfloat" where
  "float_div a b = binary64 (a / b)"

text \<open>
  \<open>redondear_decimal(valor)\<close> is \<open>Decimal(str(round(valor, 2)))\<close>. Python's \<open>round\<close>
  takes the exact value of the double, rounds it to a whole number of hundredths
  (ties, which are ties of the binary value, go to the even hundredth) and returns the
  double nearest to that; \<open>str\<close> prints the shortest decimal that reads back as this
  double, which for magnitudes below \<open>2 ^ 46\<close> (doubles are then less than 0.01 apart)
  is the two-decimal value itself. The model returns that two-decimal value.
\<close>

definition redondear_decimal :: "pyfloat \<Rightarrow> decimal" where
  "redondear_decimal valor = of_int (round_half_even (valor * 100)) / 100"

definition calcular_porcentaje :: "pyfloat \<Rightarrow> pyfloat \<Rightarrow> decimal" where
  "calcular_porcentaje valor porcentaje =
     (let resultado = float_div (float_mul valor porcentaje) 100
      in redondear_decimal resultado)"


section \<open>Dates and seniority\<close>

text \<open>
  A \<open>datetime.date\<close>. Python only builds valid dates; \<open>valid_date\<close> states that
  invariant. \<open>date.today()\<close> is an input of the model (the parameter \<open>hoy\<close> below).
\<close>

record date =
  year :: int
  month :: int
  day :: int

definition isleap :: "int \<Rightarrow> bool" where
  "isleap y = (y mod 4 = 0 \<and> (y mod 400 = 0 \<or> y mod 100 \<noteq> 0))"

definition monthrange :: "int \<Rightarrow> int \<Rightarrow> int" where
  "monthrange y m =
     (if m = 2 then (if isleap y then 29 else 28)
      else if m = 4 \<or> m = 6 \<or> m = 9 \<or> m = 11 then 30 else 31)"

definition valid_date :: "date \<Rightarrow> bool" where
  "valid_date d = (1 \<le> month d \<and> month d \<le> 12 \<and> 1 \<le> day d \<and> day d \<le> monthrange (year d) (month d))"

definition date_lt :: "date \<Rightarrow> date \<Rightarrow> bool" where
  "date_lt a b =
     (year a < year b \<or> (year a = year b \<and> (month a < month b \<or> (month a = month b \<and> day a < day b))))"

text \<open>
  \<open>dateutil.relativedelta(dt1, dt2)\<close>: the month difference is normalised by
  \<open>_set_months\<close> into (years, months) of one sign, added to \<open>dt2\<close> with the day clipped
  to the length of the target month, and corrected one month at a time while it
  overshoots \<open>dt1\<close>.
\<close>

definition set_months :: "int \<Rightarrow> int \<times> int" where
  "set_months ms =
     (if 11 < \<bar>ms\<bar> then
        (let s = (if 0 < ms then 1 else - 1);
             d = (ms * s) div 12;
             r = (ms * s) mod 12
         in (d * s, r * s))
      else (0, ms))"

definition relativedelta_radd :: "int \<times> int \<Rightarrow> date \<Rightarrow> date" where
  "relativedelta_radd rd dt =
     (let years = fst rd; months = snd rd;
          y0 = year dt + years;
          m0 = month dt;
          ym = (if months \<noteq> 0 then
                  (let m1 = m0 + months
                   in if 12 < m1 then (y0 + 1, m1 - 12)
                      else if m1 < 1 then (y0 - 1, m1 + 12)
                      else (y0, m1))
                else (y0, m0));
          d = min (monthrange (fst ym) (snd ym)) (day dt)
      in \<lparr> year = fst ym, month = snd ym, day = d \<rparr>)"

lemma set_months_sum: "fst (set_months ms) * 12 + snd (set_months ms) = ms"
  by (auto simp: set_months_def Let_def) presburger

lemma set_months_range: "\<bar>snd (set_months ms)\<bar> \<le> 11"
proof (cases "11 < \<bar>ms\<bar>")
  case True
  have "0 \<le> \<bar>ms\<bar> mod 12" "\<bar>ms\<bar> mod 12 < 12" by simp_all
  with True show ?thesis
    by (auto simp: set_months_def Let_def abs_if split: if_splits)
next
  case False
  then show ?thesis by (simp add: set_months_def)
qed

lemma radd_year_bounds:
  "12 * year dt + ms - 23 \<le> 12 * year (relativedelta_radd (set_months ms) dt) \<and>
   12 * year (relativedelta_radd (set_months ms) dt) \<le> 12 * year dt + ms + 23"
  using set_months_sum [of ms] set_months_range [of ms]
  by (auto simp: relativedelta_radd_def Let_def split: if_splits)

function ajustar_meses :: "date \<Rightarrow> date \<Rightarrow> int \<Rightarrow> int" where
  "ajustar_meses dt1 dt2 months =
     (if date_lt dt1 dt2 then
        (if date_lt (relativedelta_radd (set_months months) dt2) dt1
         then ajustar_meses dt1 dt2 (months + 1) else months)
      else
        (if date_lt dt1 (relativedelta_radd (set_months months) dt2)
         then ajustar_meses dt1 dt2 (months - 1) else months))"
  by pat_completeness auto
termination
proof (relation "measure (\<lambda>(dt1, dt2, ms).
          if date_lt dt1 dt2 then nat (12 * (year dt1 - year dt2) + 24 - ms)
          else nat (ms - 12 * (year dt1 - year dt2) + 24))")
  show "wf (measure (\<lambda>(dt1, dt2, ms).
          if date_lt dt1 dt2 then nat (12 * (year dt1 - year dt2) + 24 - ms)
          else nat (ms - 12 * (year dt1 - year dt2) + 24)))"
    by simp
next
  fix dt1 dt2 :: date and months :: int
  assume "date_lt dt1 dt2" "date_lt (relativedelta_radd (set_months months) dt2) dt1"
  then have "year (relativedelta_radd (set_months months) dt2) \<le> year dt1"
    by (auto simp: date_lt_def)
  with radd_year_bounds [of dt2 months] \<open>date_lt dt1 dt2\<close>
  show "((dt1, dt2, months + 1), (dt1, dt2, months)) \<in> measure (\<lambda>(dt1, dt2, ms).
          if date_lt dt1 dt2 then nat (12 * (year dt1 - year dt2) + 24 - ms)
          else nat (ms - 12 * (year dt1 - year dt2) + 24))"
    by simp
next
  fix dt1 dt2 :: date and months :: int
  assume "\<not> date_lt dt1 dt2" "date_lt dt1 (relativedelta_radd (set_months months) dt2)"
  then have "year dt1 \<le> year (relativedelta_radd (set_months months) dt2)"
    by (auto simp: date_lt_def)
  with radd_year_bounds [of dt2 months] \<open>\<not> date_lt dt1 dt2\<close>
  show "((dt1, dt2, months - 1), (dt1, dt2, months)) \<in> measure (\<lambda>(dt1, dt2, ms).
          if date_lt dt1 dt2 then nat (12 * (year dt1 - year dt2) + 24 - ms)
          else nat (ms - 12 * (year dt1 - year dt2) + 24))"
    by simp
qed

definition relativedelta_years :: "date \<Rightarrow> date \<Rightarrow> int" where
  "relativedelta_years dt1 dt2 =
     fst (set_months (ajustar_meses dt1 dt2 ((year dt1 - year dt2) * 12 + (month dt1 - month dt2))))"

definition calcular_anios_antiguedad :: "date \<Rightarrow> date \<Rightarrow> int" where
  "calcular_anios_antiguedad fecha_ingreso fecha_referencia =
     relativedelta_years fecha_referencia fecha_ingreso"

definition calcular_anio_antiguedad :: "date \<Rightarrow> date \<Rightarrow> int" where
  "calcular_anio_antiguedad fecha_ingreso fecha_referencia =
     calcular_anios_antiguedad fecha_ingreso fecha_referencia"

declare ajustar_meses.simps [simp del]

section \<open>The payroll calculation engine (\<open>CalculadoraNomina\<close>)\<close>

datatype estado_empleado = ACTIVO | INACTIVO | SUSPENDIDO

text \<open>
  An \<open>Empleado\<close> row with its \<open>tipo_empleado.nombre_tipo\<close> resolved. The three money
  columns are nullable (\<open>None\<close> is SQL NULL); \<open>acepta_fondo_ahorro\<close> is only ever
  tested for truth, so NULL and False are both \<open>False\<close>.
\<close>

record empleado =
  id_empleado :: int
  nombre_completo :: string
  nombre_tipo :: string
  fecha_ingreso :: date
  estado :: estado_empleado
  salario_base :: "decimal option"
  tarifa_hora :: "decimal option"
  porcentaje_comision :: "decimal option"
  acepta_fondo_ahorro :: bool

text \<open>
  The exceptions of \<open>app.utils.exceptions\<close> with the fields of their \<open>details\<close>, the
  \<open>NominaException\<close> codes raised by the service, the \<open>TypeError\<close> of
  \<open>float(None)\<close>, the \<open>AttributeError\<close> of an attribute read on \<open>None\<close>, and the
  \<open>ValidationError\<close> of a pydantic schema.
\<close>

datatype error =
    EmpleadoNoEncontrado int
  | PeriodoNoEncontrado int
  | PeriodoCerrado int
  | NominaDuplicada int int int
  | NominaNoEncontrada int
  | ValidacionNomina string
  | SalarioNegativo pyfloat int
  | TypeError
  | AttributeError
  | ValidationError string

text \<open>The fixed description texts of the detail lines; the seniority text carries the years.\<close>

datatype descripcion =
    DescBonoAntiguedad int
  | DescBonoVentas
  | DescAlimentacion
  | DescFondoAhorro
  | DescSeguridadSocial
  | DescARL
  | DescFondoAhorroEmpleado

text \<open>
  One entry of \<open>detalles_bonos\<close>, \<open>detalles_beneficios\<close> or \<open>detalles_deducciones\<close>:
  the keys a kind of line does not have are \<open>None\<close>.
\<close>

record detalle =
  tipo :: string
  descripcion :: descripcion
  monto :: decimal
  porcentaje_aplicado :: "decimal option"
  base_calculo :: "decimal option"

type_synonym detalles = "(string \<times> detalle) list"

definition BONO_ANTIGUEDAD_PORCENTAJE :: decimal where "BONO_ANTIGUEDAD_PORCENTAJE = 10"
definition anio_PARA_BONO_ANTIGUEDAD :: int where "anio_PARA_BONO_ANTIGUEDAD = 5"
definition BONO_ALIMENTACION :: decimal where "BONO_ALIMENTACION = 1000000"
definition COMISION_VENTAS_LIMITE :: decimal where "COMISION_VENTAS_LIMITE = 20000000"
definition BONO_VENTAS_PORCENTAJE :: decimal where "BONO_VENTAS_PORCENTAJE = 3"
definition MULTIPLICADOR_HORA_EXTRA :: decimal where "MULTIPLICADOR_HORA_EXTRA = 3 / 2"
definition DEDUCCION_SEGURIDAD_SOCIAL_PENSION :: decimal where "DEDUCCION_SEGURIDAD_SOCIAL_PENSION = 4"
definition DEDUCCION_ARL :: decimal where "DEDUCCION_ARL = 522 / 1000"
definition FONDO_AHORRO_PORCENTAJE :: decimal where "FONDO_AHORRO_PORCENTAJE = 2"
definition anio_PARA_FONDO_AHORRO :: int where "anio_PARA_FONDO_AHORRO = 1"

text \<open>\<open>Decimal(str(x or 0))\<close> for a nullable column.\<close>

definition valor_o_cero :: "decimal option \<Rightarrow> decimal" where
  "valor_o_cero x = (case x of None \<Rightarrow> 0 | Some v \<Rightarrow> v)"

definition calcular_asalariado :: "empleado \<Rightarrow> decimal" where
  "calcular_asalariado e = valor_o_cero (salario_base e)"

definition calcular_por_horas :: "empleado \<Rightarrow> decimal \<Rightarrow> decimal \<Rightarrow> error + decimal" where
  "calcular_por_horas e horas extras =
     (if horas < 0 then Inl (ValidacionNomina ''horas_trabajadas'')
      else if extras < 0 then Inl (ValidacionNomina ''horas_extras'')
      else
        (let tarifa = valor_o_cero (tarifa_hora e);
             pago_normal = horas * tarifa;
             pago_extras = extras * tarifa * MULTIPLICADOR_HORA_EXTRA
         in Inr (redondear_decimal (float_of (pago_normal + pago_extras)))))"

definition calcular_por_comision :: "empleado \<Rightarrow> decimal \<Rightarrow> error + decimal" where
  "calcular_por_comision e ventas =
     (if ventas < 0 then Inl (ValidacionNomina ''ventas_realizadas'')
      else
        (let base = valor_o_cero (salario_base e);
             porcentaje_com = valor_o_cero (porcentaje_comision e);
             comision = calcular_porcentaje (float_of ventas) (float_of porcentaje_com)
         in Inr (base + comision)))"

definition calcular_temporal :: "empleado \<Rightarrow> decimal" where
  "calcular_temporal e = valor_o_cero (salario_base e)"

definition calcular_salario_bruto ::
  "empleado \<Rightarrow> decimal \<Rightarrow> decimal \<Rightarrow> decimal \<Rightarrow> error + decimal" where
  "calcular_salario_bruto e horas extras ventas =
     (if nombre_tipo e = ''ASALARIADO'' then Inr (calcular_asalariado e)
      else if nombre_tipo e = ''POR_HORAS'' then calcular_por_horas e horas extras
      else if nombre_tipo e = ''POR_COMISION'' then calcular_por_comision e ventas
      else if nombre_tipo e = ''TEMPORAL'' then Inr (calcular_temporal e)
      else Inl (ValidacionNomina ''tipo_empleado''))"

text \<open>
  \<open>calcular_bonos\<close>. The seniority bonus reads \<open>float(empleado.salario_base)\<close> with no
  \<open>or 0\<close>: on a NULL salary Python raises \<open>TypeError\<close>.
\<close>

definition bono_antiguedad :: "empleado \<Rightarrow> date \<Rightarrow> error + (decimal \<times> detalles)" where
  "bono_antiguedad e hoy =
     (if nombre_tipo e = ''ASALARIADO'' then
        (let anio_antiguedad = calcular_anio_antiguedad (fecha_ingreso e) hoy
         in if anio_PARA_BONO_ANTIGUEDAD \<le> anio_antiguedad then
              (case salario_base e of
                 None \<Rightarrow> Inl TypeError
               | Some b \<Rightarrow>
                   (let monto_bono = calcular_porcentaje (float_of b) (float_of BONO_ANTIGUEDAD_PORCENTAJE)
                    in Inr (0 + monto_bono,
                            AList.update ''BONO_ANTIGUEDAD''
                              \<lparr> tipo = ''BONO_ANTIGUEDAD'',
                                descripcion = DescBonoAntiguedad anio_antiguedad,
                                monto = monto_bono,
                                porcentaje_aplicado = Some BONO_ANTIGUEDAD_PORCENTAJE,
                                base_calculo = None \<rparr> [])))
            else Inr (0, []))
      else Inr (0, []))"

definition bono_ventas :: "empleado \<Rightarrow> decimal \<Rightarrow> decimal \<times> detalles \<Rightarrow> decimal \<times> detalles" where
  "bono_ventas e ventas acc =
     (if nombre_tipo e = ''POR_COMISION'' \<and> COMISION_VENTAS_LIMITE < ventas then
        (let monto_bono = calcular_porcentaje (float_of ventas) (float_of BONO_VENTAS_PORCENTAJE)
         in (fst acc + monto_bono,
             AList.update ''BONO_VENTAS''
               \<lparr> tipo = ''BONO_VENTAS'',
                 descripcion = DescBonoVentas,
                 monto = monto_bono,
                 porcentaje_aplicado = Some BONO_VENTAS_PORCENTAJE,
                 base_calculo = None \<rparr> (snd acc)))
      else acc)"

definition calcular_bonos :: "empleado \<Rightarrow> date \<Rightarrow> decimal \<Rightarrow> error + (decimal \<times> detalles)" where
  "calcular_bonos e hoy ventas =
     (case bono_antiguedad e hoy of
        Inl err \<Rightarrow> Inl err
      | Inr acc \<Rightarrow> Inr (bono_ventas e ventas acc))"

text \<open>
  \<open>calcular_beneficios\<close>. The employer's savings-fund contribution is the constant 0, so
  its line is never written; the seniority is still computed on that path.
\<close>

definition calcular_beneficios :: "empleado \<Rightarrow> date \<Rightarrow> decimal \<times> detalles" where
  "calcular_beneficios e hoy =
     (let acc1 =
            (if nombre_tipo e = ''ASALARIADO'' \<or> nombre_tipo e = ''POR_COMISION'' then
               (0 + BONO_ALIMENTACION,
                AList.update ''BONO_ALIMENTACION''
                  \<lparr> tipo = ''BONO_ALIMENTACION'',
                    descripcion = DescAlimentacion,
                    monto = BONO_ALIMENTACION,
                    porcentaje_aplicado = None,
                    base_calculo = None \<rparr> [])
             else (0, []))
      in if nombre_tipo e = ''POR_HORAS'' then
           (let anio_antiguedad = calcular_anio_antiguedad (fecha_ingreso e) hoy
            in if anio_PARA_FONDO_AHORRO \<le> anio_antiguedad \<and> acepta_fondo_ahorro e then
                 (let beneficio_fondo = (0 :: decimal)
                  in if 0 < beneficio_fondo then
                       (fst acc1 + beneficio_fondo,
                        AList.update ''FONDO_AHORRO''
                          \<lparr> tipo = ''FONDO_AHORRO'',
                            descripcion = DescFondoAhorro,
                            monto = beneficio_fondo,
                            porcentaje_aplicado = None,
                            base_calculo = None \<rparr> (snd acc1))
                     else acc1)
               else acc1)
         else acc1)"

definition linea_deduccion :: "string \<Rightarrow> descripcion \<Rightarrow> decimal \<Rightarrow> decimal \<Rightarrow> decimal \<Rightarrow> detalle" where
  "linea_deduccion t d m p b =
     \<lparr> tipo = t, descripcion = d, monto = m, porcentaje_aplicado = Some p, base_calculo = Some b \<rparr>"

definition calcular_deducciones :: "empleado \<Rightarrow> date \<Rightarrow> decimal \<Rightarrow> decimal \<times> detalles" where
  "calcular_deducciones e hoy bruto =
     (let deduccion_ss = calcular_porcentaje (float_of bruto) (float_of DEDUCCION_SEGURIDAD_SOCIAL_PENSION);
          d1 = AList.update ''SEGURIDAD_SOCIAL_PENSION''
                 (linea_deduccion ''SEGURIDAD_SOCIAL_PENSION'' DescSeguridadSocial deduccion_ss
                    DEDUCCION_SEGURIDAD_SOCIAL_PENSION bruto) [];
          t1 = 0 + deduccion_ss;
          deduccion_arl = calcular_porcentaje (float_of bruto) (float_of DEDUCCION_ARL);
          d2 = AList.update ''ARL''
                 (linea_deduccion ''ARL'' DescARL deduccion_arl DEDUCCION_ARL bruto) d1;
          t2 = t1 + deduccion_arl
      in if nombre_tipo e = ''POR_HORAS'' then
           (let anio_antiguedad = calcular_anio_antiguedad (fecha_ingreso e) hoy
            in if anio_PARA_FONDO_AHORRO \<le> anio_antiguedad \<and> acepta_fondo_ahorro e then
                 (let deduccion_fondo = calcular_porcentaje (float_of bruto) (float_of FONDO_AHORRO_PORCENTAJE)
                  in (t2 + deduccion_fondo,
                      AList.update ''FONDO_AHORRO_EMPLEADO''
                        (linea_deduccion ''FONDO_AHORRO_EMPLEADO'' DescFondoAhorroEmpleado deduccion_fondo
                           FONDO_AHORRO_PORCENTAJE bruto) d2))
               else (t2, d2))
         else (t2, d2))"

text \<open>The dictionary returned by \<open>calcular_nomina_completa\<close>.\<close>

record calculo =
  salario_bruto :: decimal
  total_bonos :: decimal
  total_beneficios :: decimal
  total_deducciones :: decimal
  salario_neto :: decimal
  detalles_bonos :: detalles
  detalles_beneficios :: detalles
  detalles_deducciones :: detalles

definition calcular_nomina_completa ::
  "empleado \<Rightarrow> date \<Rightarrow> decimal \<Rightarrow> decimal \<Rightarrow> decimal \<Rightarrow> error + calculo" where
  "calcular_nomina_completa e hoy horas extras ventas =
     (case calcular_salario_bruto e horas extras ventas of
        Inl err \<Rightarrow> Inl err
      | Inr bruto \<Rightarrow>
          (case calcular_bonos e hoy ventas of
             Inl err \<Rightarrow> Inl err
           | Inr bonos \<Rightarrow>
               (let beneficios = calcular_beneficios e hoy;
                    deducciones = calcular_deducciones e hoy bruto;
                    neto = bruto + fst bonos + fst beneficios - fst deducciones
                in if neto < 0 then Inl (SalarioNegativo (float_of neto) (id_empleado e))
                   else Inr \<lparr> salario_bruto = bruto,
                             total_bonos = fst bonos,
                             total_beneficios = fst beneficios,
                             total_deducciones = fst deducciones,
                             salario_neto = neto,
                             detalles_bonos = snd bonos,
                             detalles_beneficios = snd beneficios,
                             detalles_deducciones = snd deducciones \<rparr>)))"

section \<open>The store\<close>

text \<open>
  The tables the service reads and writes, each a list of rows in storage order; a query
  with \<open>.first()\<close> returns the first matching row. \<open>seq_nomina\<close> is the AUTO_INCREMENT
  counter of table \<open>nomina\<close>. The surrogate keys and timestamps the database assigns to
  detail and audit rows are not part of the model. Every write of one service call is
  committed together at its single \<open>commit()\<close>; a call that raises has written nothing.
\<close>

datatype estado_periodo = ABIERTO | EN_PROCESO | CERRADO | PAGADO

record periodo_nomina =
  id_periodo :: int
  anio :: int
  mes :: int
  estado_periodo :: estado_periodo

definition esta_cerrado :: "periodo_nomina \<Rightarrow> bool" where
  "esta_cerrado p = (estado_periodo p = CERRADO \<or> estado_periodo p = PAGADO)"

record nomina =
  id_nomina :: int
  n_id_empleado :: int
  n_id_periodo :: int
  horas_trabajadas :: decimal
  horas_extras :: decimal
  ventas_realizadas :: decimal
  n_salario_bruto :: decimal
  n_total_bonos :: decimal
  n_total_beneficios :: decimal
  n_total_deducciones :: decimal
  n_salario_neto :: decimal
  calculado_por :: string

text \<open>A row of \<open>detalle_bono\<close>, \<open>detalle_beneficio\<close> or \<open>detalle_deduccion\<close>.\<close>

record fila_detalle =
  d_id_nomina :: int
  d_datos :: detalle

datatype descripcion_auditoria = DescCalculadaPara string | DescRecalculada | DescEliminada

record auditoria_nomina =
  a_id_nomina :: int
  accion :: string
  usuario :: string
  a_descripcion :: descripcion_auditoria
  valores_anteriores :: "(string \<times> pyfloat) list option"
  valores_nuevos :: "(string \<times> pyfloat) list option"

record db =
  empleados :: "empleado list"
  periodos :: "periodo_nomina list"
  nominas :: "nomina list"
  detalle_bono :: "fila_detalle list"
  detalle_beneficio :: "fila_detalle list"
  detalle_deduccion :: "fila_detalle list"
  auditorias :: "auditoria_nomina list"
  seq_nomina :: int

subsection \<open>Repositories\<close>

definition empleado_get_by_id :: "db \<Rightarrow> int \<Rightarrow> empleado option" where
  "empleado_get_by_id s i = find (\<lambda>e. id_empleado e = i) (empleados s)"

text \<open>\<open>get_all_activos()\<close> is called with its defaults \<open>skip = 0\<close>, \<open>limit = 100\<close>.\<close>

definition get_all_activos :: "db \<Rightarrow> nat \<Rightarrow> nat \<Rightarrow> empleado list" where
  "get_all_activos s skip limit = take limit (drop skip (filter (\<lambda>e. estado e = ACTIVO) (empleados s)))"

definition periodo_get_by_id :: "db \<Rightarrow> int \<Rightarrow> periodo_nomina option" where
  "periodo_get_by_id s i = find (\<lambda>p. id_periodo p = i) (periodos s)"


definition get_by_empleado_periodo :: "db \<Rightarrow> int \<Rightarrow> int \<Rightarrow> nomina option" where
  "get_by_empleado_periodo s ie ip = find (\<lambda>n. n_id_empleado n = ie \<and> n_id_periodo n = ip) (nominas s)"

definition exists_nomina :: "db \<Rightarrow> int \<Rightarrow> int \<Rightarrow> bool" where
  "exists_nomina s ie ip = (get_by_empleado_periodo s ie ip \<noteq> None)"

subsection \<open>Request schemas\<close>

record nomina_create =
  nc_id_empleado :: int
  nc_id_periodo :: int
  nc_horas_trabajadas :: "decimal option"
  nc_horas_extras :: "decimal option"
  nc_ventas_realizadas :: "decimal option"


text \<open>
  The constructor of \<open>NominaCreate\<close> as the bulk processor calls it: both ids must be
  positive and the three amounts nonnegative, else pydantic raises.
\<close>

definition NominaCreate :: "int \<Rightarrow> int \<Rightarrow> decimal \<Rightarrow> decimal \<Rightarrow> decimal \<Rightarrow> error + nomina_create" where
  "NominaCreate ie ip horas extras ventas =
     (if ie \<le> 0 then Inl (ValidationError ''id_empleado'')
      else if ip \<le> 0 then Inl (ValidationError ''id_periodo'')
      else if horas < 0 then Inl (ValidationError ''horas_trabajadas'')
      else if extras < 0 then Inl (ValidationError ''horas_extras'')
      else if ventas < 0 then Inl (ValidationError ''ventas_realizadas'')
      else Inr \<lparr> nc_id_empleado = ie, nc_id_periodo = ip,
                 nc_horas_trabajadas = Some horas, nc_horas_extras = Some extras,
                 nc_ventas_realizadas = Some ventas \<rparr>)"

section \<open>The payroll service (\<open>NominaService\<close>)\<close>

definition filas :: "int \<Rightarrow> detalles \<Rightarrow> fila_detalle list" where
  "filas i ds = map (\<lambda>kv. \<lparr> d_id_nomina = i, d_datos = snd kv \<rparr>) ds"

text \<open>Each operation returns its result, or the exception it raises, and the store it leaves.\<close>

definition calcular_y_crear_nomina ::
  "db \<Rightarrow> date \<Rightarrow> nomina_create \<Rightarrow> string \<Rightarrow> (error + nomina) \<times> db" where
  "calcular_y_crear_nomina s hoy nomina_data usr =
     (case empleado_get_by_id s (nc_id_empleado nomina_data) of
        None \<Rightarrow> (Inl (EmpleadoNoEncontrado (nc_id_empleado nomina_data)), s)
      | Some emp \<Rightarrow>
     (case periodo_get_by_id s (nc_id_periodo nomina_data) of
        None \<Rightarrow> (Inl (PeriodoNoEncontrado (nc_id_periodo nomina_data)), s)
      | Some per \<Rightarrow>
     if esta_cerrado per then (Inl (PeriodoCerrado (nc_id_periodo nomina_data)), s)
     else
     (case get_by_empleado_periodo s (nc_id_empleado nomina_data) (nc_id_periodo nomina_data) of
        Some nomina_existente \<Rightarrow>
          (Inl (NominaDuplicada (nc_id_empleado nomina_data) (nc_id_periodo nomina_data)
                  (id_nomina nomina_existente)), s)
      | None \<Rightarrow>
     (case calcular_nomina_completa emp hoy
             (valor_o_cero (nc_horas_trabajadas nomina_data))
             (valor_o_cero (nc_horas_extras nomina_data))
             (valor_o_cero (nc_ventas_realizadas nomina_data)) of
        Inl err \<Rightarrow> (Inl err, s)
      | Inr c \<Rightarrow>
          (let nom = \<lparr> id_nomina = seq_nomina s,
                       n_id_empleado = nc_id_empleado nomina_data,
                       n_id_periodo = nc_id_periodo nomina_data,
                       horas_trabajadas = valor_o_cero (nc_horas_trabajadas nomina_data),
                       horas_extras = valor_o_cero (nc_horas_extras nomina_data),
                       ventas_realizadas = valor_o_cero (nc_ventas_realizadas nomina_data),
                       n_salario_bruto = salario_bruto c,
                       n_total_bonos = total_bonos c,
                       n_total_beneficios = total_beneficios c,
                       n_total_deducciones = total_deducciones c,
                       n_salario_neto = salario_neto c,
                       calculado_por = usr \<rparr>;
               aud = \<lparr> a_id_nomina = id_nomina nom,
                       accion = ''CREAR'',
                       usuario = usr,
                       a_descripcion = DescCalculadaPara (nombre_completo emp),
                       valores_anteriores = None,
                       valores_nuevos = Some
                         [(''salario_bruto'', float_of (salario_bruto c)),
                          (''salario_neto'', float_of (salario_neto c)),
                          (''total_bonos'', float_of (total_bonos c)),
                          (''total_beneficios'', float_of (total_beneficios c)),
                          (''total_deducciones'', float_of (total_deducciones c))] \<rparr>
           in (Inr nom,
               s \<lparr> nominas := nominas s @ [nom],
                   detalle_bono := detalle_bono s @ filas (id_nomina nom) (detalles_bonos c),
                   detalle_beneficio := detalle_beneficio s @ filas (id_nomina nom) (detalles_beneficios c),
                   detalle_deduccion := detalle_deduccion s @ filas (id_nomina nom) (detalles_deducciones c),
                   auditorias := auditorias s @ [aud],
                   seq_nomina := seq_nomina s + 1 \<rparr>))))))"



subsection \<open>The bulk processor\<close>

datatype error_fallo = YaExisteNomina | Excepcion error

record exito =
  ex_empleado_id :: int
  ex_empleado_nombre :: string
  ex_nomina_id :: int
  ex_salario_neto :: pyfloat

record fallo =
  fa_empleado_id :: int
  fa_empleado_nombre :: string
  fa_error :: error_fallo

record resultados =
  periodo_id :: int
  total_empleados :: nat
  nominas_exitosas :: "exito list"
  nominas_fallidas :: "fallo list"
  total_exitosas :: nat
  total_fallidas :: nat

definition registrar_fallo :: "empleado \<Rightarrow> error_fallo \<Rightarrow> resultados \<Rightarrow> resultados" where
  "registrar_fallo e err r =
     r \<lparr> nominas_fallidas := nominas_fallidas r @
           [\<lparr> fa_empleado_id = id_empleado e, fa_empleado_nombre = nombre_completo e, fa_error = err \<rparr>],
         total_fallidas := total_fallidas r + 1 \<rparr>"

definition registrar_exito :: "empleado \<Rightarrow> nomina \<Rightarrow> resultados \<Rightarrow> resultados" where
  "registrar_exito e nom r =
     r \<lparr> nominas_exitosas := nominas_exitosas r @
           [\<lparr> ex_empleado_id = id_empleado e, ex_empleado_nombre = nombre_completo e,
              ex_nomina_id = id_nomina nom, ex_salario_neto = float_of (n_salario_neto nom) \<rparr>],
         total_exitosas := total_exitosas r + 1 \<rparr>"

text \<open>One pass of the \<open>for\<close> loop body, with its \<open>try\<close>/\<open>except Exception\<close>.\<close>

definition procesar_empleado ::
  "date \<Rightarrow> int \<Rightarrow> string \<Rightarrow> empleado \<Rightarrow> resultados \<times> db \<Rightarrow> resultados \<times> db" where
  "procesar_empleado hoy ip usr e rs =
     (let r = fst rs; s = snd rs
      in if exists_nomina s (id_empleado e) ip then (registrar_fallo e YaExisteNomina r, s)
         else
           (case NominaCreate (id_empleado e) ip 0 0 0 of
              Inl err \<Rightarrow> (registrar_fallo e (Excepcion err) r, s)
            | Inr nomina_data \<Rightarrow>
                (case calcular_y_crear_nomina s hoy nomina_data usr of
                   (Inl err, s') \<Rightarrow> (registrar_fallo e (Excepcion err) r, s')
                 | (Inr nom, s') \<Rightarrow> (registrar_exito e nom r, s'))))"

fun procesar_empleados ::
  "date \<Rightarrow> int \<Rightarrow> string \<Rightarrow> empleado list \<Rightarrow> resultados \<times> db \<Rightarrow> resultados \<times> db" where
  "procesar_empleados hoy ip usr [] rs = rs"
| "procesar_empleados hoy ip usr (e # es) rs =
     procesar_empleados hoy ip usr es (procesar_empleado hoy ip usr e rs)"

definition calcular_nominas_periodo ::
  "db \<Rightarrow> date \<Rightarrow> int \<Rightarrow> string \<Rightarrow> (error + resultados) \<times> db" where
  "calcular_nominas_periodo s hoy ip usr =
     (case periodo_get_by_id s ip of
        None \<Rightarrow> (Inl (PeriodoNoEncontrado ip), s)
      | Some per \<Rightarrow>
          if esta_cerrado per then (Inl (PeriodoCerrado ip), s)
          else
            (let empleados_activos = get_all_activos s 0 100;
                 r0 = \<lparr> periodo_id = ip,
                        total_empleados = length empleados_activos,
                        nominas_exitosas = [],
                        nominas_fallidas = [],
                        total_exitosas = 0,
                        total_fallidas = 0 \<rparr>;
                 rs = procesar_empleados hoy ip usr empleados_activos (r0, s)
             in (Inr (fst rs), snd rs)))"

text \<open>
  What a batch result records: the employee ids of its two detail lists, as a multiset,
  and whether its two counters agree with the lengths of the lists.
\<close>

definition ids_registrados :: "resultados \<Rightarrow> int multiset" where
  "ids_registrados r =
     mset (map ex_empleado_id (nominas_exitosas r)) + mset (map fa_empleado_id (nominas_fallidas r))"

definition contadores_ok :: "resultados \<Rightarrow> bool" where
  "contadores_ok r =
     (total_exitosas r = length (nominas_exitosas r) \<and> total_fallidas r = length (nominas_fallidas r))"

section \<open>Example data\<close>

text \<open>The employees and the day used where a statement is instantiated.\<close>

definition hoy_ejemplo :: date where
  "hoy_ejemplo = \<lparr> year = 2025, month = 6, day = 1 \<rparr>"

definition empleado_por_horas :: empleado where
  "empleado_por_horas =
     \<lparr> id_empleado = 3, nombre_completo = ''Luis Martinez'', nombre_tipo = ''POR_HORAS'',
       fecha_ingreso = \<lparr> year = 2023, month = 1, day = 10 \<rparr>, estado = ACTIVO,
       salario_base = None, tarifa_hora = Some 25000, porcentaje_comision = None,
       acepta_fondo_ahorro = True \<rparr>"

definition empleado_comision :: empleado where
  "empleado_comision =
     \<lparr> id_empleado = 5, nombre_completo = ''Ana Gomez'', nombre_tipo = ''POR_COMISION'',
       fecha_ingreso = \<lparr> year = 2022, month = 3, day = 1 \<rparr>, estado = ACTIVO,
       salario_base = Some 2000000, tarifa_hora = None, porcentaje_comision = Some 5,
       acepta_fondo_ahorro = False \<rparr>"

definition empleado_asalariado :: empleado where
  "empleado_asalariado =
     \<lparr> id_empleado = 1, nombre_completo = ''Carlos Rodriguez'', nombre_tipo = ''ASALARIADO'',
       fecha_ingreso = \<lparr> year = 2018, month = 1, day = 15 \<rparr>, estado = ACTIVO,
       salario_base = Some 5000000, tarifa_hora = None, porcentaje_comision = None,
       acepta_fondo_ahorro = False \<rparr>"

definition periodo_abierto :: periodo_nomina where
  "periodo_abierto = \<lparr> id_periodo = 1, anio = 2025, mes = 5, estado_periodo = ABIERTO \<rparr>"

definition periodo_cerrado :: periodo_nomina where
  "periodo_cerrado = \<lparr> id_periodo = 2, anio = 2025, mes = 4, estado_periodo = CERRADO \<rparr>"

definition nomina_previa :: "int \<Rightarrow> int \<Rightarrow> nomina" where
  "nomina_previa i ip =
     \<lparr> id_nomina = i, n_id_empleado = 3, n_id_periodo = ip,
       horas_trabajadas = 160, horas_extras = 10, ventas_realizadas = 0,
       n_salario_bruto = 4375000, n_total_bonos = 0, n_total_beneficios = 0,
       n_total_deducciones = 570675 / 2, n_salario_neto = 8179325 / 2,
       calculado_por = ''SYSTEM'' \<rparr>"

definition db_ejemplo :: db where
  "db_ejemplo =
     \<lparr> empleados = [empleado_asalariado, empleado_por_horas, empleado_comision],
       periodos = [periodo_abierto, periodo_cerrado],
       nominas = [nomina_previa 7 2, nomina_previa 8 1],
       detalle_bono = [],
       detalle_beneficio = [],
       detalle_deduccion =
         filas 7 (snd (calcular_deducciones empleado_por_horas hoy_ejemplo 4375000)) @
         filas 8 (snd (calcular_deducciones empleado_por_horas hoy_ejemplo 4375000)),
       auditorias = [],
       seq_nomina = 9 \<rparr>"

definition solicitud :: "int \<Rightarrow> int \<Rightarrow> nomina_create" where
  "solicitud ie ip =
     \<lparr> nc_id_empleado = ie, nc_id_periodo = ip, nc_horas_trabajadas = Some 160,
       nc_horas_extras = Some 10, nc_ventas_realizadas = Some 0 \<rparr>"


definition empleado_n :: "int \<Rightarrow> empleado" where
  "empleado_n k =
     \<lparr> id_empleado = k, nombre_completo = ''Empleado'', nombre_tipo = ''TEMPORAL'',
       fecha_ingreso = \<lparr> year = 2024, month = 1, day = 1 \<rparr>, estado = ACTIVO,
       salario_base = Some 1000000, tarifa_hora = None, porcentaje_comision = None,
       acepta_fondo_ahorro = False \<rparr>"

definition db_101 :: db where
  "db_101 =
     \<lparr> empleados = map (\<lambda>k. empleado_n (int k)) [1..<102],
       periodos = [periodo_abierto],
       nominas = [], detalle_bono = [], detalle_beneficio = [], detalle_deduccion = [],
       auditorias = [], seq_nomina = 1 \<rparr>"



section \<open>Facts about rounding\<close>








lemma rhe_err: "\<bar>of_int (round_half_even x) - x\<bar> \<le> 1 / 2"
proof -
  define f where "f = \<lfloor>x\<rfloor>"
  have fc: "of_int f \<le> x" "x < of_int f + 1"
    using floor_correct [of x] by (simp_all add: f_def)
  consider "x - of_int f < 1 / 2" | "1 / 2 < x - of_int f" | "x - of_int f = 1 / 2"
    by linarith
  then show ?thesis
  proof cases
    case 1
    then have "round_half_even x = f" by (simp add: round_half_even_def Let_def f_def)
    with 1 fc show ?thesis by simp
  next
    case 2
    then have "round_half_even x = f + 1" by (simp add: round_half_even_def Let_def f_def)
    with 2 fc show ?thesis by simp
  next
    case 3
    then have "round_half_even x = f \<or> round_half_even x = f + 1"
      by (simp add: round_half_even_def Let_def f_def)
    with 3 fc show ?thesis by auto
  qed
qed




lemma rhe_small: "0 \<le> x \<Longrightarrow> x \<le> 1 / 2 \<Longrightarrow> round_half_even x = 0"
proof -
  assume a: "0 \<le> x" "x \<le> 1 / 2"
  then have "\<lfloor>x\<rfloor> = 0" by (simp add: floor_eq_iff)
  with a show ?thesis by (simp add: round_half_even_def Let_def)
qed

lemma rhe_le_double: "0 \<le> x \<Longrightarrow> of_int (round_half_even x) \<le> 2 * x"
proof (cases "x \<le> 1 / 2")
  case True
  assume "0 \<le> x"
  with True show ?thesis by (simp add: rhe_small)
next
  case False
  then show ?thesis using rhe_err [of x] by linarith
qed


lemma binary64_zero [simp]: "binary64 0 = 0"
  by (simp add: binary64_def)








subsection \<open>Percentages\<close>





















section \<open>The full computation\<close>









section \<open>Creating a payroll that already exists\<close>

text \<open>
  C8, as stated, at a closed period: employee 3 already has payroll 7 in period 2, which is
  CERRADO; the call fails with \<open>PeriodoCerradoException\<close>, not with the duplicate error,
  because the period state is checked first. The store is unchanged.
\<close>

theorem crear_duplicada_counterexample:
  "get_by_empleado_periodo db_ejemplo 3 2 = Some (nomina_previa 7 2) \<and>
   calcular_y_crear_nomina db_ejemplo hoy_ejemplo (solicitud 3 2) ''SYSTEM''
     = (Inl (PeriodoCerrado 2), db_ejemplo) \<and>
   fst (calcular_y_crear_nomina db_ejemplo hoy_ejemplo (solicitud 3 2) ''SYSTEM'')
     \<noteq> Inl (NominaDuplicada 3 2 7)"
  by (simp add: get_by_empleado_periodo_def db_ejemplo_def nomina_previa_def solicitud_def
      calcular_y_crear_nomina_def empleado_get_by_id_def periodo_get_by_id_def
      empleado_asalariado_def empleado_por_horas_def empleado_comision_def
      periodo_abierto_def periodo_cerrado_def esta_cerrado_def)

text \<open>
  C8, amended. When the employee and the period are found, the period is not closed and a
  payroll already exists for the pair, \<open>calcular_y_crear_nomina\<close> raises the
  \<open>NOMINA_DUPLICADA\<close> error whose details carry the id of the existing payroll, and the
  store it leaves is the store it was given: payrolls, detail lines and audit trail are
  exactly as before.
\<close>

theorem crear_duplicada:
  assumes "empleado_get_by_id s (nc_id_empleado nd) = Some emp"
      and "periodo_get_by_id s (nc_id_periodo nd) = Some per"
      and "\<not> esta_cerrado per"
      and "get_by_empleado_periodo s (nc_id_empleado nd) (nc_id_periodo nd) = Some existente"
  shows "calcular_y_crear_nomina s hoy nd usr =
           (Inl (NominaDuplicada (nc_id_empleado nd) (nc_id_periodo nd) (id_nomina existente)), s)"
  using assms by (simp add: calcular_y_crear_nomina_def)

theorem crear_duplicada_witness:
  "calcular_y_crear_nomina db_ejemplo hoy_ejemplo (solicitud 3 1) ''SYSTEM''
     = (Inl (NominaDuplicada 3 1 8), db_ejemplo)"
proof -
  have e: "empleado_get_by_id db_ejemplo (nc_id_empleado (solicitud 3 1)) = Some empleado_por_horas"
    by (simp add: empleado_get_by_id_def db_ejemplo_def solicitud_def
        empleado_asalariado_def empleado_por_horas_def)
  have p: "periodo_get_by_id db_ejemplo (nc_id_periodo (solicitud 3 1)) = Some periodo_abierto"
    by (simp add: periodo_get_by_id_def db_ejemplo_def solicitud_def periodo_abierto_def)
  have a: "\<not> esta_cerrado periodo_abierto"
    by (simp add: esta_cerrado_def periodo_abierto_def)
  have n: "get_by_empleado_periodo db_ejemplo (nc_id_empleado (solicitud 3 1))
             (nc_id_periodo (solicitud 3 1)) = Some (nomina_previa 8 1)"
    by (simp add: get_by_empleado_periodo_def db_ejemplo_def solicitud_def nomina_previa_def)
  from crear_duplicada [OF e p a n, of hoy_ejemplo "''SYSTEM''"]
  show ?thesis by (simp add: solicitud_def nomina_previa_def)
qed

section \<open>Recalculating twice\<close>




lemma filter_filas: "filter (\<lambda>r. d_id_nomina r \<noteq> i) (filas i ds) = []"
  by (induction ds) (auto simp: filas_def)

lemma filter_reemplazo:
  "filter (\<lambda>r. d_id_nomina r \<noteq> i) (filter (\<lambda>r. d_id_nomina r \<noteq> i) rows @ filas i ds) @ filas i ds
   = filter (\<lambda>r. d_id_nomina r \<noteq> i) rows @ filas i ds"
  by (simp add: filter_filas)









section \<open>The batch over a period\<close>

text \<open>
  For an existing period that is not closed the batch returns a result, its total is the
  length of the snapshot, its counters are the lengths of its lists, and every employee of
  the snapshot is recorded exactly once, in the list of successes or in the list of
  failures: an exception raised for one employee never stops the loop.
\<close>

lemma procesar_empleado_cases:
  "(\<exists>err. procesar_empleado hoy ip usr e (r, s) = (registrar_fallo e err r, s)) \<or>
   (\<exists>nom s'. procesar_empleado hoy ip usr e (r, s) = (registrar_exito e nom r, s'))"
proof -
  have crea: "\<And>nd err s'. calcular_y_crear_nomina s hoy nd usr = (Inl err, s') \<Longrightarrow> s' = s"
    by (auto simp: calcular_y_crear_nomina_def Let_def split: option.splits if_splits sum.splits)
  show ?thesis
    by (auto simp: procesar_empleado_def Let_def split: sum.splits prod.splits dest: crea)
qed

lemma registrar_fallo_props:
  "total_empleados (registrar_fallo e err r) = total_empleados r"
  "periodo_id (registrar_fallo e err r) = periodo_id r"
  "ids_registrados (registrar_fallo e err r) = ids_registrados r + {#id_empleado e#}"
  "contadores_ok r \<Longrightarrow> contadores_ok (registrar_fallo e err r)"
  by (simp_all add: registrar_fallo_def ids_registrados_def contadores_ok_def)

lemma registrar_exito_props:
  "total_empleados (registrar_exito e nom r) = total_empleados r"
  "periodo_id (registrar_exito e nom r) = periodo_id r"
  "ids_registrados (registrar_exito e nom r) = ids_registrados r + {#id_empleado e#}"
  "contadores_ok r \<Longrightarrow> contadores_ok (registrar_exito e nom r)"
  by (simp_all add: registrar_exito_def ids_registrados_def contadores_ok_def)

lemma procesar_empleado_props:
  "total_empleados (fst (procesar_empleado hoy ip usr e (r, s))) = total_empleados r"
  "ids_registrados (fst (procesar_empleado hoy ip usr e (r, s))) = ids_registrados r + {#id_empleado e#}"
  "contadores_ok r \<Longrightarrow> contadores_ok (fst (procesar_empleado hoy ip usr e (r, s)))"
  using procesar_empleado_cases [where hoy = hoy and ip = ip and usr = usr and e = e and r = r and s = s]
  by (auto simp: registrar_fallo_props registrar_exito_props)

lemma procesar_empleados_props:
  "total_empleados (fst (procesar_empleados hoy ip usr es rs)) = total_empleados (fst rs) \<and>
   ids_registrados (fst (procesar_empleados hoy ip usr es rs))
     = ids_registrados (fst rs) + mset (map id_empleado es) \<and>
   (contadores_ok (fst rs) \<longrightarrow> contadores_ok (fst (procesar_empleados hoy ip usr es rs)))"
proof (induction es arbitrary: rs)
  case Nil
  then show ?case by simp
next
  case (Cons e es)
  obtain r s where rs: "rs = (r, s)" by (cases rs)
  show ?case
    using Cons.IH [where rs = "procesar_empleado hoy ip usr e (r, s)"]
          procesar_empleado_props [where hoy = hoy and ip = ip and usr = usr and e = e and r = r and s = s]
    by (simp add: rs)
qed

lemma lote_general:
  assumes "periodo_get_by_id s ip = Some per" "\<not> esta_cerrado per"
  shows "\<exists>r s'. calcular_nominas_periodo s hoy ip usr = (Inr r, s') \<and>
           total_empleados r = length (get_all_activos s 0 100) \<and>
           total_exitosas r = length (nominas_exitosas r) \<and>
           total_fallidas r = length (nominas_fallidas r) \<and>
           ids_registrados r = mset (map id_empleado (get_all_activos s 0 100))"
proof -
  define r0 where "r0 = \<lparr> periodo_id = ip, total_empleados = length (get_all_activos s 0 100),
                        nominas_exitosas = [], nominas_fallidas = [],
                        total_exitosas = 0, total_fallidas = 0 \<rparr>"
  have r0: "total_empleados r0 = length (get_all_activos s 0 100)" "ids_registrados r0 = {#}"
           "contadores_ok r0"
    by (simp_all add: r0_def ids_registrados_def contadores_ok_def)
  have run: "calcular_nominas_periodo s hoy ip usr =
          (Inr (fst (procesar_empleados hoy ip usr (get_all_activos s 0 100) (r0, s))),
           snd (procesar_empleados hoy ip usr (get_all_activos s 0 100) (r0, s)))"
    using assms by (simp add: calcular_nominas_periodo_def Let_def r0_def)
  show ?thesis
    using procesar_empleados_props [where hoy = hoy and ip = ip and usr = usr and es = "get_all_activos s 0 100" and rs = "(r0, s)"] r0
    by (simp add: run contadores_ok_def)
qed

lemma length_activos:
  "length (get_all_activos s 0 100) = min 100 (length (filter (\<lambda>e. estado e = ACTIVO) (empleados s)))"
  by (simp add: get_all_activos_def)

lemma activos_101:
  "filter (\<lambda>e. estado e = ACTIVO) (empleados db_101) = empleados db_101"
  by (simp add: db_101_def empleado_n_def filter_map o_def)

lemma snapshot_101:
  "get_all_activos db_101 0 100 = map (\<lambda>k. empleado_n (int k)) [1..<101]"
  unfolding get_all_activos_def activos_101 by (simp add: db_101_def take_map)

text \<open>
  C1 at a store with 101 ACTIVE employees and an open period 1. The batch takes its
  snapshot with \<open>get_all_activos()\<close>, whose default \<open>limit\<close> is 100: the returned total is
  100, exactly 100 employees are recorded in the two detail lists, and employee 101 is in
  neither.
\<close>

theorem lote_101_activos:
  "length (filter (\<lambda>e. estado e = ACTIVO) (empleados db_101)) = 101 \<and>
   (\<exists>r s'. calcular_nominas_periodo db_101 hoy_ejemplo 1 ''SYSTEM'' = (Inr r, s') \<and>
      total_empleados r = 100 \<and>
      length (nominas_exitosas r) + length (nominas_fallidas r) = 100 \<and>
      101 \<notin> set (map ex_empleado_id (nominas_exitosas r)) \<and>
      101 \<notin> set (map fa_empleado_id (nominas_fallidas r)))"
proof -
  have p: "periodo_get_by_id db_101 1 = Some periodo_abierto"
    by (simp add: periodo_get_by_id_def db_101_def periodo_abierto_def)
  have a: "\<not> esta_cerrado periodo_abierto"
    by (simp add: esta_cerrado_def periodo_abierto_def)
  obtain r s' where
    run: "calcular_nominas_periodo db_101 hoy_ejemplo 1 ''SYSTEM'' = (Inr r, s')"
    and tot: "total_empleados r = length (get_all_activos db_101 0 100)"
    and ids: "ids_registrados r = mset (map id_empleado (get_all_activos db_101 0 100))"
    using lote_general [OF p a, of hoy_ejemplo "''SYSTEM''"] by blast
  have l: "length (get_all_activos db_101 0 100) = 100"
    by (simp add: snapshot_101)
  have idl: "map id_empleado (get_all_activos db_101 0 100) = map int [1..<101]"
    by (simp add: snapshot_101 empleado_n_def o_def)
  have "size (ids_registrados r) = 100" by (simp add: ids idl)
  then have len: "length (nominas_exitosas r) + length (nominas_fallidas r) = 100"
    by (simp add: ids_registrados_def)
  have "101 \<notin># ids_registrados r" by (auto simp: ids idl)
  then have no: "101 \<notin> set (map ex_empleado_id (nominas_exitosas r))"
                "101 \<notin> set (map fa_empleado_id (nominas_fallidas r))"
    by (auto simp: ids_registrados_def)
  have "length (filter (\<lambda>e. estado e = ACTIVO) (empleados db_101)) = 101"
    unfolding activos_101 by (simp add: db_101_def)
  with run tot l len no show ?thesis by auto
qed

section \<open>The seniority bonus on a NULL base salary\<close>


section \<open>The net salary is never negative\<close>












section \<open>The deduction lines\<close>








section \<open>The sales bonus\<close>









section \<open>The gross salary of an hourly employee\<close>







section \<open>Where the results are rounded\<close>
















end
